theory Spec2Isabelle
  imports Complex_Main "HOL-Library.Log_Nat"
begin

section \<open>The reward engine's points preview\<close>

text \<open>
  This theory embeds \<^verbatim>\<open>RewardEngineService.calculatePointsPreview\<close> of
  \<^verbatim>\<open>src/services/rewardEngineService.ts\<close> and the data it reads.

  How JavaScript values are represented:
  \<^item> A \<^verbatim>\<open>number\<close> is an IEEE 754 binary64 value. A number that the function receives (a
    configuration field, the order amount) is finite and is given by its value, a
    \<^typ>\<open>real\<close>. Every number that reaches the function in this repository is decoded
    from JSON or read by \<^verbatim>\<open>parseFloat(...) || default\<close> / \<^verbatim>\<open>parseInt(...) || default\<close> in
    the settings page, and neither produces \<^verbatim>\<open>NaN\<close>. The theorems below hold for every
    real input, so in particular for every binary64 one; each concrete input used below
    is a binary64 value.
  \<^item> A number that the function computes is a \<open>number\<close>: a finite value, one of the two
    infinities, or \<^verbatim>\<open>NaN\<close>. Each of \<^verbatim>\<open>-\<close>, \<^verbatim>\<open>*\<close> and \<^verbatim>\<open>/\<close> rounds its exact result to the
    nearest binary64 value, ties to even, and overflows to an infinity (\<open>round64\<close>).
    Division by zero does not raise; it yields an infinity or \<^verbatim>\<open>NaN\<close>.
    The two zeros are one value here: the function never divides by a computed value,
    \<^verbatim>\<open>Math.max(-0, 0)\<close> is \<^verbatim>\<open>0\<close>, and an infinity times either zero is \<^verbatim>\<open>NaN\<close>.
  \<^item> \<^verbatim>\<open>config.tier_multipliers[customerTier]\<close> is a property read with an arbitrary
    string. The object has the four own properties of the interface \<^verbatim>\<open>TierMultipliers\<close>
    and, being an object literal (\<^verbatim>\<open>getDefaultConfig\<close>), a spread copy of one (the
    settings page) or a JSON-decoded object (\<^verbatim>\<open>getRewardEngineConfig\<close>), it inherits the
    properties of \<^verbatim>\<open>Object.prototype\<close>. A read therefore gives a number, an inherited
    function or object, or \<^verbatim>\<open>undefined\<close>.
\<close>

subsection \<open>Numbers and values\<close>

datatype number = Num real | PosInfinity | NegInfinity | NaN

datatype jsvalue = JUndefined | JNumber real | JObject

text \<open>The sign of a number, as multiplication needs it; \<^verbatim>\<open>NaN\<close> has none.\<close>

fun js_sign :: "number \<Rightarrow> int" where
  "js_sign (Num a) = (if a > 0 then 1 else if a < 0 then -1 else 0)"
| "js_sign PosInfinity = 1"
| "js_sign NegInfinity = -1"
| "js_sign NaN = 0"

subsection \<open>Rounding to binary64\<close>

text \<open>
  \<open>pow2 k\<close> is \<open>2\<close> to the power \<open>k\<close>; \<open>exponent x\<close> is the binary exponent of a number that
  is not zero, the \<open>e\<close> with \<open>2^e \<le> |x| < 2^(e+1)\<close>, computed from the bit length of an integer
  (lemma \<open>exponent_bounds\<close> below).
\<close>

definition pow2 :: "int \<Rightarrow> real" where
  "pow2 k = (if k \<ge> 0 then 2 ^ nat k else 1 / 2 ^ nat (- k))"

definition exponent :: "real \<Rightarrow> int" where
  "exponent x =
     (if \<bar>x\<bar> \<ge> 1 then bitlen \<lfloor>\<bar>x\<bar>\<rfloor> - 1 else - bitlen (\<lceil>1 / \<bar>x\<bar>\<rceil> - 1))"

text \<open>Rounding to the nearest integer, a tie going to the even one.\<close>

definition round_even :: "real \<Rightarrow> int" where
  "round_even r =
     (let f = \<lfloor>r\<rfloor>; d = r - of_int f
      in if d < 1/2 then f else if d > 1/2 then f + 1 else if even f then f else f + 1)"

text \<open>
  The binary64 value nearest to a real: 53 significant bits, the exponent not below
  -1022 (below it the spacing stays \<open>2^-1074\<close>: subnormal numbers), and an infinity when
  the rounded magnitude reaches \<open>2^1024\<close>.
\<close>

definition round64 :: "real \<Rightarrow> number" where
  "round64 x =
     (if x = 0 then Num 0
      else let e = max (exponent x) (- 1022);
               q = pow2 (e - 52);
               y = of_int (round_even (x / q)) * q
           in if y \<ge> 2 ^ 1024 then PosInfinity
              else if y \<le> - (2 ^ 1024) then NegInfinity
              else Num y)"

subsection \<open>Arithmetic\<close>

text \<open>\<^verbatim>\<open>x - y\<close> and \<^verbatim>\<open>x / y\<close> on two finite numbers.\<close>

definition js_minus :: "real \<Rightarrow> real \<Rightarrow> number" where
  "js_minus x y = round64 (x - y)"

definition js_divide :: "real \<Rightarrow> real \<Rightarrow> number" where
  "js_divide x y =
     (if y \<noteq> 0 then round64 (x / y)
      else if x = 0 then NaN
      else if x > 0 then PosInfinity else NegInfinity)"

text \<open>\<^verbatim>\<open>x * y\<close>: an infinity times zero, and anything times \<^verbatim>\<open>NaN\<close>, is \<^verbatim>\<open>NaN\<close>.\<close>

fun js_times :: "number \<Rightarrow> number \<Rightarrow> number" where
  "js_times (Num a) (Num b) = round64 (a * b)"
| "js_times x y =
     (if x = NaN \<or> y = NaN \<or> js_sign x * js_sign y = 0 then NaN
      else if js_sign x * js_sign y > 0 then PosInfinity else NegInfinity)"

text \<open>\<^verbatim>\<open>Math.floor\<close> is exact: the floor of a binary64 value is a binary64 value.\<close>

fun Math_floor :: "number \<Rightarrow> number" where
  "Math_floor (Num a) = Num (of_int \<lfloor>a\<rfloor>)"
| "Math_floor x = x"

fun Math_max :: "number \<Rightarrow> number \<Rightarrow> number" where
  "Math_max NaN y = NaN"
| "Math_max x NaN = NaN"
| "Math_max PosInfinity y = PosInfinity"
| "Math_max x PosInfinity = PosInfinity"
| "Math_max NegInfinity y = y"
| "Math_max x NegInfinity = x"
| "Math_max (Num a) (Num b) = Num (max a b)"

fun Math_min :: "number \<Rightarrow> number \<Rightarrow> number" where
  "Math_min NaN y = NaN"
| "Math_min x NaN = NaN"
| "Math_min NegInfinity y = NegInfinity"
| "Math_min x NegInfinity = NegInfinity"
| "Math_min PosInfinity y = y"
| "Math_min x PosInfinity = x"
| "Math_min (Num a) (Num b) = Num (min a b)"

text \<open>
  Two sign tests on computed numbers, used in the proofs about negative amounts.
\<close>

fun nonpos :: "number \<Rightarrow> bool" where
  "nonpos (Num y) = (y \<le> 0)"
| "nonpos NegInfinity = True"
| "nonpos x = False"

fun nonneg :: "number \<Rightarrow> bool" where
  "nonneg (Num y) = (0 \<le> y)"
| "nonneg PosInfinity = True"
| "nonneg x = False"

text \<open>
  \<^verbatim>\<open>ToBoolean\<close> and \<^verbatim>\<open>ToNumber\<close> of the language: \<^verbatim>\<open>undefined\<close> and \<^verbatim>\<open>0\<close> are falsy, an
  object is truthy; \<^verbatim>\<open>undefined\<close> converts to \<^verbatim>\<open>NaN\<close>, and so does an inherited function or
  object of \<^verbatim>\<open>Object.prototype\<close>, whose string form is not a numeral.
\<close>

fun ToBoolean :: "jsvalue \<Rightarrow> bool" where
  "ToBoolean JUndefined = False"
| "ToBoolean (JNumber a) = (a \<noteq> 0)"
| "ToBoolean JObject = True"

fun ToNumber :: "jsvalue \<Rightarrow> number" where
  "ToNumber JUndefined = NaN"
| "ToNumber (JNumber a) = Num a"
| "ToNumber JObject = NaN"

text \<open>\<^verbatim>\<open>a || b\<close>\<close>

definition js_or :: "jsvalue \<Rightarrow> jsvalue \<Rightarrow> jsvalue" where
  "js_or a b = (if ToBoolean a then a else b)"

subsection \<open>The configuration\<close>

record SmartSettings =
  cost_price :: real
  selling_price :: real
  profit_allocation_percent :: real

record ManualSettings =
  aed_value :: real
  point_value :: real

record TierMultipliers =
  bronze :: real
  silver :: real
  gold :: real
  platinum :: real

datatype Mode = smart | manual

record RewardEngineConfig =
  mode :: Mode
  smart_settings :: SmartSettings
  manual_settings :: ManualSettings
  tier_multipliers :: TierMultipliers
  max_points_per_order :: real

text \<open>The names every ordinary object inherits from \<^verbatim>\<open>Object.prototype\<close>.\<close>

definition Object_prototype_properties :: "string list" where
  "Object_prototype_properties =
     [''constructor'', ''hasOwnProperty'', ''isPrototypeOf'', ''propertyIsEnumerable'',
      ''toLocaleString'', ''toString'', ''valueOf'', ''__proto__'',
      ''__defineGetter__'', ''__defineSetter__'', ''__lookupGetter__'', ''__lookupSetter__'']"

text \<open>\<^verbatim>\<open>tier_multipliers[key]\<close>: own properties first, then the prototype.\<close>

definition get_property :: "TierMultipliers \<Rightarrow> string \<Rightarrow> jsvalue" where
  "get_property tm key =
     (if key = ''bronze'' then JNumber (bronze tm)
      else if key = ''silver'' then JNumber (silver tm)
      else if key = ''gold'' then JNumber (gold tm)
      else if key = ''platinum'' then JNumber (platinum tm)
      else if key \<in> set Object_prototype_properties then JObject
      else JUndefined)"

subsection \<open>calculatePointsPreview\<close>

text \<open>
  The three local variables of the function, in the order the source computes them, and
  its result. \<^verbatim>\<open>basePoints\<close> starts at 0 and is assigned only under the guard of its mode.
  The tier is always passed here; a call that omits it is the call with \<^verbatim>\<open>'bronze'\<close>.
\<close>

definition basePoints :: "RewardEngineConfig \<Rightarrow> real \<Rightarrow> number" where
  "basePoints config orderAmount =
     (if mode config = smart then
        (let cost = cost_price (smart_settings config);
             selling = selling_price (smart_settings config);
             percent = profit_allocation_percent (smart_settings config)
         in if selling > 0 then
              (let profit = js_times (js_minus selling cost) (js_divide orderAmount selling);
                   rewardValue = js_times profit (js_divide percent 100)
               in Math_floor rewardValue)
            else Num 0)
      else
        (let aed = aed_value (manual_settings config);
             pv = point_value (manual_settings config)
         in if aed > 0 then Math_floor (js_times (js_divide orderAmount aed) (Num pv))
            else Num 0))"

definition tierMultiplier :: "RewardEngineConfig \<Rightarrow> string \<Rightarrow> jsvalue" where
  "tierMultiplier config customerTier =
     js_or (get_property (tier_multipliers config) customerTier) (JNumber 1)"

definition finalPoints :: "RewardEngineConfig \<Rightarrow> real \<Rightarrow> string \<Rightarrow> number" where
  "finalPoints config orderAmount customerTier =
     Math_floor (js_times (basePoints config orderAmount)
                          (ToNumber (tierMultiplier config customerTier)))"

definition calculatePointsPreview :: "RewardEngineConfig \<Rightarrow> real \<Rightarrow> string \<Rightarrow> number" where
  "calculatePointsPreview config orderAmount customerTier =
     Math_min (Math_max (finalPoints config orderAmount customerTier) (Num 0))
              (Num (max_points_per_order config))"

definition getDefaultConfig :: RewardEngineConfig where
  "getDefaultConfig =
     \<lparr> mode = manual,
       smart_settings = \<lparr> cost_price = 0, selling_price = 0, profit_allocation_percent = 20 \<rparr>,
       manual_settings = \<lparr> aed_value = 10, point_value = 1 \<rparr>,
       tier_multipliers = \<lparr> bronze = 1.0, silver = 1.25, gold = 1.5, platinum = 2.0 \<rparr>,
       max_points_per_order = 1000 \<rparr>"

section \<open>Facts about the model\<close>

subsection \<open>Rounding\<close>

lemma pow2_pos: "pow2 k > 0"
  by (simp add: pow2_def)

text \<open>
  The exponent is the one of the binary representation.
\<close>

lemma exponent_bounds:
  assumes "x \<noteq> 0"
  shows "pow2 (exponent x) \<le> \<bar>x\<bar> \<and> \<bar>x\<bar> < pow2 (exponent x + 1)"
proof (cases "\<bar>x\<bar> \<ge> 1")
  case True
  define m where "m = \<lfloor>\<bar>x\<bar>\<rfloor>"
  have m1: "1 \<le> m" using True by (simp add: m_def le_floor_iff)
  then have m0: "0 < m" by simp
  define b where "b = bitlen m"
  have b1: "1 \<le> b" using m0 by (simp add: b_def bitlen_alt_def)
  have lo: "2 ^ nat (b - 1) \<le> m" and hi: "m < 2 ^ nat b"
    using bitlen_bounds [OF m0] by (simp_all add: b_def)
  have e: "exponent x = b - 1" using True by (simp add: exponent_def m_def b_def)
  have "real_of_int (2 ^ nat (b - 1)) \<le> real_of_int m" using lo by (simp only: of_int_le_iff)
  then have "(2::real) ^ nat (b - 1) \<le> real_of_int m" by simp
  also have "real_of_int m \<le> \<bar>x\<bar>" by (simp add: m_def)
  finally have l: "pow2 (b - 1) \<le> \<bar>x\<bar>" using b1 by (simp add: pow2_def)
  have "m + 1 \<le> 2 ^ nat b" using hi by simp
  then have "real_of_int (m + 1) \<le> real_of_int (2 ^ nat b)" by (simp only: of_int_le_iff)
  then have "real_of_int m + 1 \<le> (2::real) ^ nat b" by simp
  moreover have "\<bar>x\<bar> < real_of_int m + 1" by (simp add: m_def)
  ultimately have "\<bar>x\<bar> < (2::real) ^ nat b" by linarith
  then have "\<bar>x\<bar> < pow2 b" using b1 by (simp add: pow2_def)
  with l e show ?thesis by simp
next
  case False
  then have x1: "\<bar>x\<bar> < 1" by simp
  have xp: "0 < \<bar>x\<bar>" using assms by simp
  define z where "z = 1 / \<bar>x\<bar>"
  have z1: "1 < z" using x1 xp by (simp add: z_def)
  have zp: "0 < z" using z1 by simp
  have xz: "\<bar>x\<bar> = 1 / z" by (simp add: z_def)
  define m where "m = \<lceil>z\<rceil>"
  have "1 < m" using z1 by (simp add: m_def less_ceiling_iff)
  then have m0: "0 < m - 1" by simp
  define b where "b = bitlen (m - 1)"
  have b1: "1 \<le> b" using m0 by (simp add: b_def bitlen_alt_def)
  have lo: "2 ^ nat (b - 1) \<le> m - 1" and hi: "m - 1 < 2 ^ nat b"
    using bitlen_bounds [OF m0] by (simp_all add: b_def)
  have e: "exponent x = - b" using False by (simp add: exponent_def m_def b_def z_def)
  have "m \<le> 2 ^ nat b" using hi by simp
  then have "real_of_int m \<le> real_of_int (2 ^ nat b)" by (simp only: of_int_le_iff)
  then have "real_of_int m \<le> (2::real) ^ nat b" by simp
  moreover have "z \<le> real_of_int m" by (simp add: m_def)
  ultimately have zb: "z \<le> 2 ^ nat b" by linarith
  have "1 / 2 ^ nat b \<le> 1 / z" using zb zp by (simp add: frac_le)
  then have l: "pow2 (- b) \<le> \<bar>x\<bar>" using b1 xz by (simp add: pow2_def)
  have "real_of_int (2 ^ nat (b - 1)) \<le> real_of_int (m - 1)"
    using lo by (simp only: of_int_le_iff)
  then have "(2::real) ^ nat (b - 1) \<le> real_of_int m - 1" by simp
  moreover have "real_of_int m - 1 < z" unfolding m_def by linarith
  ultimately have zl: "2 ^ nat (b - 1) < z" by linarith
  have "1 / z < 1 / 2 ^ nat (b - 1)" using zl by (simp add: frac_less2)
  moreover have "pow2 (- b + 1) = 1 / 2 ^ nat (b - 1)"
  proof (cases "b = 1")
    case True
    then show ?thesis by (simp add: pow2_def)
  next
    case False
    with b1 have "1 < b" by simp
    then show ?thesis by (simp add: pow2_def)
  qed
  ultimately have "\<bar>x\<bar> < pow2 (- b + 1)" using xz by simp
  with l e show ?thesis by simp
qed

lemma round_even_nonpos: "r \<le> 0 \<Longrightarrow> round_even r \<le> 0"
proof -
  assume r: "r \<le> 0"
  define f where "f = \<lfloor>r\<rfloor>"
  have f: "f \<le> 0" unfolding f_def using r by linarith
  show ?thesis
  proof (cases "f = 0")
    case True
    then have "0 \<le> r" unfolding f_def by linarith
    with r have "r = 0" by simp
    then show ?thesis by (simp add: round_even_def)
  next
    case False
    with f have "f + 1 \<le> 0" by simp
    with f show ?thesis by (simp add: round_even_def Let_def f_def [symmetric])
  qed
qed

lemma round_even_nonneg: "0 \<le> r \<Longrightarrow> 0 \<le> round_even r"
proof -
  assume "0 \<le> r"
  then have "0 \<le> \<lfloor>r\<rfloor>" by simp
  then show ?thesis by (simp add: round_even_def Let_def)
qed

lemma round_even_of_int: "round_even (of_int k) = k"
  by (simp add: round_even_def)

text \<open>
  Integers of magnitude below \<open>2^53\<close> are binary64 values: rounding leaves them as they are.
\<close>

lemma round64_of_int:
  assumes "\<bar>n\<bar> < 2 ^ 53"
  shows "round64 (of_int n) = Num (of_int n)"
proof (cases "n = 0")
  case True
  then show ?thesis by (simp add: round64_def)
next
  case False
  define x where "x = real_of_int n"
  have x0: "x \<noteq> 0" using False by (simp add: x_def)
  have "1 \<le> \<bar>n\<bar>" using False by simp
  then have "real_of_int 1 \<le> real_of_int \<bar>n\<bar>" by (simp only: of_int_le_iff)
  then have x1: "1 \<le> \<bar>x\<bar>" by (simp add: x_def)
  define e where "e = exponent x"
  have e0: "0 \<le> e"
    using x1 by (simp add: e_def exponent_def bitlen_alt_def)
  have lo: "pow2 e \<le> \<bar>x\<bar>" using exponent_bounds [OF x0] by (simp add: e_def)
  have "real_of_int \<bar>n\<bar> < real_of_int (2 ^ 53)" using assms by (simp only: of_int_less_iff)
  then have x53: "\<bar>x\<bar> < 2 ^ 53" by (simp add: x_def)
  with lo have "(2::real) ^ nat e < 2 ^ 53" using e0 by (simp add: pow2_def)
  then have "nat e < 53" by (simp only: power_strict_increasing_iff one_less_numeral_iff semiring_norm)
  then have e52: "e \<le> 52" by simp
  define d where "d = nat (52 - e)"
  have q: "pow2 (max e (- 1022) - 52) = 1 / 2 ^ d"
    using e0 e52 by (cases "e = 52") (simp_all add: pow2_def d_def max_def)
  have "x * 2 ^ d = real_of_int (n * 2 ^ d)" by (simp add: x_def)
  then have r: "round_even (x * 2 ^ d) = n * 2 ^ d"
    by (simp only: round_even_of_int)
  have y: "real_of_int (n * 2 ^ d) / 2 ^ d = x" by (simp add: x_def)
  have "\<bar>x\<bar> < 2 ^ 1024"
    using x53 by (rule less_trans) simp
  then have b: "\<not> 2 ^ 1024 \<le> x" "\<not> x \<le> - (2 ^ 1024)" by linarith+
  show ?thesis
    using x0 b by (simp add: round64_def Let_def e_def [symmetric] q r y x_def [symmetric])
qed

text \<open>
  Rounding never yields \<^verbatim>\<open>NaN\<close> and never changes the sign.
\<close>

lemma round64_not_NaN: "round64 x \<noteq> NaN"
  by (simp add: round64_def Let_def)

lemma round64_nonpos:
  assumes "x \<le> 0"
  shows "nonpos (round64 x)"
proof (cases "x = 0")
  case True
  then show ?thesis by (simp add: round64_def)
next
  case False
  define q where "q = pow2 (max (exponent x) (- 1022) - 52)"
  define y where "y = real_of_int (round_even (x / q)) * q"
  have q: "0 < q" by (simp add: q_def pow2_pos)
  have "x / q \<le> 0" using assms q by (simp add: divide_nonpos_pos)
  then have "round_even (x / q) \<le> 0" by (rule round_even_nonpos)
  then have "real_of_int (round_even (x / q)) \<le> 0" by simp
  then have y: "y \<le> 0" unfolding y_def using q by (simp add: mult_nonpos_nonneg)
  have "round64 x = (if y \<ge> 2 ^ 1024 then PosInfinity
      else if y \<le> - (2 ^ 1024) then NegInfinity else Num y)"
    using False by (simp add: round64_def Let_def q_def y_def)
  moreover have "\<not> y \<ge> 2 ^ 1024" using y by (simp add: not_le)
  ultimately show ?thesis using y by simp
qed

lemma round64_nonneg:
  assumes "0 \<le> x"
  shows "nonneg (round64 x)"
proof (cases "x = 0")
  case True
  then show ?thesis by (simp add: round64_def)
next
  case False
  define q where "q = pow2 (max (exponent x) (- 1022) - 52)"
  define y where "y = real_of_int (round_even (x / q)) * q"
  have q: "0 < q" by (simp add: q_def pow2_pos)
  have "0 \<le> x / q" using assms q by simp
  then have "0 \<le> round_even (x / q)" by (rule round_even_nonneg)
  then have "0 \<le> real_of_int (round_even (x / q))" by simp
  then have y: "0 \<le> y" unfolding y_def using q by simp
  have "round64 x = (if y \<ge> 2 ^ 1024 then PosInfinity
      else if y \<le> - (2 ^ 1024) then NegInfinity else Num y)"
    using False by (simp add: round64_def Let_def q_def y_def)
  moreover have "\<not> y \<le> - (2 ^ 1024)" using y by (simp add: not_le)
  ultimately show ?thesis using y by simp
qed

subsection \<open>Multiplication and floor\<close>

lemma js_times_nonpos:
  assumes "nonpos a" and "nonneg b"
  shows "js_times a b = NaN \<or> nonpos (js_times a b)"
proof (cases a)
  case (Num x)
  show ?thesis
  proof (cases b)
    case (Num y)
    with \<open>a = Num x\<close> assms have "x * y \<le> 0" by (simp add: mult_nonpos_nonneg)
    then show ?thesis using \<open>a = Num x\<close> Num by (simp add: round64_nonpos)
  next
    case PosInfinity
    with \<open>a = Num x\<close> assms show ?thesis by simp
  qed (use assms in simp_all)
next
  case NegInfinity
  with assms show ?thesis by (cases b) simp_all
qed (use assms in simp_all)

lemma js_times_nonneg_nonpos:
  assumes "nonneg a" and "nonpos b"
  shows "js_times a b = NaN \<or> nonpos (js_times a b)"
proof (cases a)
  case (Num x)
  show ?thesis
  proof (cases b)
    case (Num y)
    with \<open>a = Num x\<close> assms have "x * y \<le> 0" by (simp add: mult_nonneg_nonpos)
    then show ?thesis using \<open>a = Num x\<close> Num by (simp add: round64_nonpos)
  next
    case NegInfinity
    with \<open>a = Num x\<close> assms show ?thesis by simp
  qed (use assms in simp_all)
next
  case PosInfinity
  with assms show ?thesis by (cases b) simp_all
qed (use assms in simp_all)

lemma js_times_NaN_left: "js_times NaN b = NaN"
  by (cases b) simp_all

lemma js_times_NaN_right: "js_times a NaN = NaN"
  by (cases a) simp_all

lemma Math_floor_nonpos: "nonpos a \<Longrightarrow> nonpos (Math_floor a)"
  by (cases a) simp_all

lemma Math_floor_cases:
  "(\<exists>k::int. Math_floor a = Num (of_int k)) \<or> Math_floor a = PosInfinity
     \<or> Math_floor a = NegInfinity \<or> Math_floor a = NaN"
  by (cases a) simp_all

subsection \<open>The locals\<close>

text \<open>
  The definitions that evaluate a call, and those that evaluate a rounding, at a concrete input.
\<close>

lemmas round64_defs = round64_def exponent_def pow2_def round_even_def compute_bitlen Let_def

lemmas preview_defs =
  calculatePointsPreview_def finalPoints_def tierMultiplier_def basePoints_def
  get_property_def js_or_def js_divide_def js_minus_def Object_prototype_properties_def

text \<open>
  Each division of the function stands under a guard that makes its divisor positive
  (or has the divisor 100), so it is a rounded quotient and never a division by zero.
\<close>

lemma guarded_division:
  assumes "y > 0"
  shows "js_divide x y = round64 (x / y)"
  using assms by (simp add: js_divide_def)

lemma basePoints_smart:
  assumes "mode c = smart" and "selling_price (smart_settings c) > 0"
  shows "basePoints c oa =
     Math_floor (js_times
       (js_times (js_minus (selling_price (smart_settings c)) (cost_price (smart_settings c)))
                 (js_divide oa (selling_price (smart_settings c))))
       (js_divide (profit_allocation_percent (smart_settings c)) 100))"
  using assms by (simp add: basePoints_def Let_def)

lemma basePoints_smart_unguarded:
  assumes "mode c = smart" and "selling_price (smart_settings c) \<le> 0"
  shows "basePoints c oa = Num 0"
  using assms by (simp add: basePoints_def Let_def)

lemma basePoints_manual:
  assumes "mode c = manual" and "aed_value (manual_settings c) > 0"
  shows "basePoints c oa =
     Math_floor (js_times (js_divide oa (aed_value (manual_settings c)))
                          (Num (point_value (manual_settings c))))"
  using assms by (simp add: basePoints_def Let_def)

lemma basePoints_manual_unguarded:
  assumes "mode c = manual" and "aed_value (manual_settings c) \<le> 0"
  shows "basePoints c oa = Num 0"
  using assms by (simp add: basePoints_def Let_def)

lemma tierMultiplier_own:
  assumes "t \<notin> set Object_prototype_properties"
  shows "\<exists>m. m \<noteq> 0 \<and> tierMultiplier c t = JNumber m"
  using assms by (auto simp: tierMultiplier_def get_property_def js_or_def)

lemma tierMultiplier_unknown:
  assumes "t \<notin> {''bronze'', ''silver'', ''gold'', ''platinum''}"
      and "t \<notin> set Object_prototype_properties"
  shows "tierMultiplier c t = JNumber 1"
  using assms by (simp add: tierMultiplier_def get_property_def js_or_def)

lemma tierMultiplier_inherited:
  assumes "t \<in> set Object_prototype_properties"
  shows "tierMultiplier c t = JObject"
  using assms by (auto simp: tierMultiplier_def get_property_def js_or_def Object_prototype_properties_def)

lemma finalPoints_inherited:
  assumes "t \<in> set Object_prototype_properties"
  shows "finalPoints c oa t = NaN"
  using tierMultiplier_inherited [OF assms] by (simp add: finalPoints_def js_times_NaN_right)

lemma finalPoints_cases:
  "(\<exists>k::int. finalPoints c oa t = Num (of_int k)) \<or> finalPoints c oa t = PosInfinity
     \<or> finalPoints c oa t = NegInfinity \<or> finalPoints c oa t = NaN"
  unfolding finalPoints_def by (rule Math_floor_cases)

section \<open>The claims\<close>

text \<open>
  Equality of two results below is equality of the values returned; the value \<^verbatim>\<open>NaN\<close>
  is equal to itself here, although JavaScript's \<^verbatim>\<open>===\<close> says otherwise.
\<close>

subsection \<open>C1: the clamp\<close>

text \<open>
  C1, as amended. For every configuration whose \<^verbatim>\<open>max_points_per_order\<close> is an integer
  that is at least 1, and every order amount and \<^verbatim>\<open>customerTier\<close> for which the pre-clamp
  \<^verbatim>\<open>finalPoints\<close> is not \<^verbatim>\<open>NaN\<close>, the function returns
  \<^verbatim>\<open>min(max(finalPoints, 0), max_points_per_order)\<close>, that result is a non-negative integer
  and does not exceed \<^verbatim>\<open>max_points_per_order\<close>, and when \<^verbatim>\<open>finalPoints\<close> exceeds
  \<^verbatim>\<open>max_points_per_order\<close> (also as \<^verbatim>\<open>Infinity\<close>) the result is exactly
  \<^verbatim>\<open>max_points_per_order\<close>.
\<close>

theorem C1_clamp:
  assumes "max_points_per_order c \<in> \<int>" and "max_points_per_order c \<ge> 1"
      and "finalPoints c oa t \<noteq> NaN"
  shows "calculatePointsPreview c oa t =
           Math_min (Math_max (finalPoints c oa t) (Num 0)) (Num (max_points_per_order c))
     \<and> (\<exists>n::int. 0 \<le> n \<and> calculatePointsPreview c oa t = Num (of_int n)
            \<and> of_int n \<le> max_points_per_order c)
     \<and> (finalPoints c oa t = PosInfinity
          \<or> (\<exists>f. finalPoints c oa t = Num f \<and> max_points_per_order c < f)
        \<longrightarrow> calculatePointsPreview c oa t = Num (max_points_per_order c))"
proof -
  obtain N :: int where N: "max_points_per_order c = of_int N"
    using assms(1) by (auto elim: Ints_cases)
  have N1: "1 \<le> N" using assms(2) N by simp
  have res: "calculatePointsPreview c oa t =
      Math_min (Math_max (finalPoints c oa t) (Num 0)) (Num (max_points_per_order c))"
    by (simp add: calculatePointsPreview_def)
  consider (int) k :: int where "finalPoints c oa t = Num (of_int k)"
    | (pos) "finalPoints c oa t = PosInfinity"
    | (neg) "finalPoints c oa t = NegInfinity"
    using finalPoints_cases [of c oa t] assms(3) by blast
  then have range: "\<exists>n::int. 0 \<le> n \<and> calculatePointsPreview c oa t = Num (of_int n)
            \<and> of_int n \<le> max_points_per_order c"
  proof cases
    case int
    have "min (max (real_of_int k) 0) (of_int N) = of_int (min (max k 0) N)"
      by (simp add: min_def max_def)
    with res int N have "calculatePointsPreview c oa t = Num (of_int (min (max k 0) N))"
      by simp
    moreover have "0 \<le> min (max k 0) N" using N1 by simp
    moreover have "real_of_int (min (max k 0) N) \<le> max_points_per_order c"
      using N by simp
    ultimately show ?thesis by blast
  next
    case pos
    with res N have "calculatePointsPreview c oa t = Num (of_int N)" by simp
    then show ?thesis using N N1 by (intro exI [of _ N]) simp
  next
    case neg
    with res N N1 have "calculatePointsPreview c oa t = Num (of_int 0)"
      by (simp add: min_def)
    then show ?thesis using assms(2) by (intro exI [of _ 0]) simp
  qed
  have top: "finalPoints c oa t = PosInfinity
          \<or> (\<exists>f. finalPoints c oa t = Num f \<and> max_points_per_order c < f)
        \<longrightarrow> calculatePointsPreview c oa t = Num (max_points_per_order c)"
    using res assms(2) by (auto simp: min_def max_def)
  from res range top show ?thesis by blast
qed

text \<open>
  C1 as stated speaks of every order amount. In manual mode with \<^verbatim>\<open>aed_value\<close> 0.5 and
  \<^verbatim>\<open>point_value\<close> 0, the amount \<open>2^1023\<close> (a binary64 value) divided by 0.5 overflows to
  \<^verbatim>\<open>Infinity\<close>, \<^verbatim>\<open>Infinity * 0\<close> is \<^verbatim>\<open>NaN\<close>, and the function returns \<^verbatim>\<open>NaN\<close> under the cap
  1000: not a non-negative integer.
\<close>

theorem C1_clamp_counterexample:
  "max_points_per_order
      (getDefaultConfig\<lparr>manual_settings := \<lparr>aed_value = 1/2, point_value = 0\<rparr>\<rparr>) = 1000
   \<and> basePoints
      (getDefaultConfig\<lparr>manual_settings := \<lparr>aed_value = 1/2, point_value = 0\<rparr>\<rparr>) (2 ^ 1023) = NaN
   \<and> calculatePointsPreview
      (getDefaultConfig\<lparr>manual_settings := \<lparr>aed_value = 1/2, point_value = 0\<rparr>\<rparr>) (2 ^ 1023)
      ''bronze'' = NaN"
  by (simp add: preview_defs getDefaultConfig_def round64_defs)

text \<open>
  The amended C1 at the default configuration: an order of a million and the gold tier
  give 150000 final points, cut to the cap of 1000; and with \<^verbatim>\<open>aed_value\<close> 0.5 the amount
  \<open>2^1023\<close> gives \<^verbatim>\<open>Infinity\<close> final points, cut to the cap as well.
\<close>

theorem C1_clamp_witness:
  "max_points_per_order getDefaultConfig \<in> \<int>
   \<and> max_points_per_order getDefaultConfig \<ge> 1
   \<and> finalPoints getDefaultConfig 1000000 ''gold'' = Num 150000
   \<and> max_points_per_order getDefaultConfig < 150000
   \<and> calculatePointsPreview getDefaultConfig 1000000 ''gold'' = Num 1000
   \<and> max_points_per_order
        (getDefaultConfig\<lparr>manual_settings := \<lparr>aed_value = 1/2, point_value = 1\<rparr>\<rparr>) \<in> \<int>
   \<and> max_points_per_order
        (getDefaultConfig\<lparr>manual_settings := \<lparr>aed_value = 1/2, point_value = 1\<rparr>\<rparr>) \<ge> 1
   \<and> finalPoints
        (getDefaultConfig\<lparr>manual_settings := \<lparr>aed_value = 1/2, point_value = 1\<rparr>\<rparr>)
        (2 ^ 1023) ''bronze'' = PosInfinity
   \<and> calculatePointsPreview
        (getDefaultConfig\<lparr>manual_settings := \<lparr>aed_value = 1/2, point_value = 1\<rparr>\<rparr>)
        (2 ^ 1023) ''bronze'' = Num 1000"
proof -
  have h1: "max_points_per_order getDefaultConfig \<in> \<int>"
    by (simp add: getDefaultConfig_def)
  have h2: "max_points_per_order getDefaultConfig \<ge> 1"
    by (simp add: getDefaultConfig_def)
  have f: "finalPoints getDefaultConfig 1000000 ''gold'' = Num 150000"
    by (simp add: preview_defs getDefaultConfig_def round64_defs)
  then have h3: "finalPoints getDefaultConfig 1000000 ''gold'' \<noteq> NaN" by simp
  have m: "max_points_per_order getDefaultConfig = 1000"
    by (simp add: getDefaultConfig_def)
  from C1_clamp [OF h1 h2 h3] f m
  have r: "calculatePointsPreview getDefaultConfig 1000000 ''gold'' = Num 1000"
    by auto
  let ?big = "getDefaultConfig\<lparr>manual_settings := \<lparr>aed_value = 1/2, point_value = 1\<rparr>\<rparr>"
  have g1: "max_points_per_order ?big \<in> \<int>" by (simp add: getDefaultConfig_def)
  have g2: "max_points_per_order ?big \<ge> 1" by (simp add: getDefaultConfig_def)
  have gm: "max_points_per_order ?big = 1000" by (simp add: getDefaultConfig_def)
  have gf: "finalPoints ?big (2 ^ 1023) ''bronze'' = PosInfinity"
    by (simp add: preview_defs getDefaultConfig_def round64_defs)
  then have g3: "finalPoints ?big (2 ^ 1023) ''bronze'' \<noteq> NaN" by simp
  from C1_clamp [OF g1 g2 g3] gf gm
  have gr: "calculatePointsPreview ?big (2 ^ 1023) ''bronze'' = Num 1000"
    by auto
  from h1 h2 f m r g1 g2 gf gr show ?thesis by simp
qed

subsection \<open>C2: smart mode\<close>

text \<open>
  C2, as amended. In smart mode, if \<^verbatim>\<open>selling_price > 0\<close> then \<^verbatim>\<open>basePoints\<close> is the floor of
  \<open>((selling_price - cost_price) * (orderAmount / selling_price)) * (profit_allocation_percent / 100)\<close>
  where each of the four operations is the binary64 one, its result rounded before the
  next is applied, and the floor leaves an infinity or \<^verbatim>\<open>NaN\<close> as it is; if
  \<^verbatim>\<open>selling_price \<le> 0\<close> then \<^verbatim>\<open>basePoints\<close> is 0. With cost price 5, selling price 10,
  allocation 20 percent, order amount 100, a tier multiplier of 1.0 and a cap of at least
  10, the function returns exactly 10.
\<close>

theorem C2_smart:
  assumes "mode c = smart"
  shows "(selling_price (smart_settings c) > 0 \<longrightarrow>
            basePoints c oa =
              Math_floor (js_times
                (js_times
                   (js_minus (selling_price (smart_settings c)) (cost_price (smart_settings c)))
                   (js_divide oa (selling_price (smart_settings c))))
                (js_divide (profit_allocation_percent (smart_settings c)) 100)))
       \<and> (selling_price (smart_settings c) \<le> 0 \<longrightarrow> basePoints c oa = Num 0)
       \<and> (cost_price (smart_settings c) = 5 \<and> selling_price (smart_settings c) = 10
            \<and> profit_allocation_percent (smart_settings c) = 20
            \<and> tierMultiplier c t = JNumber 1 \<and> max_points_per_order c \<ge> 10
          \<longrightarrow> calculatePointsPreview c 100 t = Num 10)"
proof (intro conjI impI)
  assume "selling_price (smart_settings c) > 0"
  with assms show "basePoints c oa =
      Math_floor (js_times
        (js_times
           (js_minus (selling_price (smart_settings c)) (cost_price (smart_settings c)))
           (js_divide oa (selling_price (smart_settings c))))
        (js_divide (profit_allocation_percent (smart_settings c)) 100))"
    by (rule basePoints_smart)
next
  assume "selling_price (smart_settings c) \<le> 0"
  with assms show "basePoints c oa = Num 0"
    by (rule basePoints_smart_unguarded)
next
  assume ex: "cost_price (smart_settings c) = 5 \<and> selling_price (smart_settings c) = 10
            \<and> profit_allocation_percent (smart_settings c) = 20
            \<and> tierMultiplier c t = JNumber 1 \<and> max_points_per_order c \<ge> 10"
  then have "basePoints c 100 = Num 10"
    using assms by (simp add: basePoints_smart js_minus_def js_divide_def round64_defs)
  then have "finalPoints c 100 t = Num 10"
    using ex by (simp add: finalPoints_def round64_defs)
  then show "calculatePointsPreview c 100 t = Num 10"
    using ex by (simp add: calculatePointsPreview_def)
qed

text \<open>
  C2 as stated, read with exact arithmetic, fails: with cost price 0, selling price 10,
  allocation 29 percent and the amount 100 the exact product is 29, but \<^verbatim>\<open>29 / 100\<close> rounds
  below 0.29, \<^verbatim>\<open>100 * (29 / 100)\<close> rounds to 28.999999999999996, and the base points are 28.
\<close>

theorem C2_smart_counterexample:
  "mode (getDefaultConfig\<lparr>mode := smart, smart_settings :=
      \<lparr>cost_price = 0, selling_price = 10, profit_allocation_percent = 29\<rparr>\<rparr>) = smart
   \<and> basePoints (getDefaultConfig\<lparr>mode := smart, smart_settings :=
      \<lparr>cost_price = 0, selling_price = 10, profit_allocation_percent = 29\<rparr>\<rparr>) 100 = Num 28
   \<and> \<lfloor>(10 - 0) * (100 / 10) * (29 / 100 :: real)\<rfloor> = 29"
  by (simp add: preview_defs getDefaultConfig_def round64_defs)

text \<open>
  The spec's example configuration (bronze is 1.0 and the cap is 1000), and the default
  configuration switched to smart mode, whose selling price is 0.
\<close>

theorem C2_smart_witness:
  "mode (getDefaultConfig\<lparr>mode := smart, smart_settings :=
      \<lparr>cost_price = 5, selling_price = 10, profit_allocation_percent = 20\<rparr>\<rparr>) = smart
   \<and> tierMultiplier (getDefaultConfig\<lparr>mode := smart, smart_settings :=
      \<lparr>cost_price = 5, selling_price = 10, profit_allocation_percent = 20\<rparr>\<rparr>) ''bronze''
        = JNumber 1
   \<and> max_points_per_order (getDefaultConfig\<lparr>mode := smart, smart_settings :=
      \<lparr>cost_price = 5, selling_price = 10, profit_allocation_percent = 20\<rparr>\<rparr>) \<ge> 10
   \<and> basePoints (getDefaultConfig\<lparr>mode := smart, smart_settings :=
      \<lparr>cost_price = 5, selling_price = 10, profit_allocation_percent = 20\<rparr>\<rparr>) 37 = Num 3
   \<and> calculatePointsPreview (getDefaultConfig\<lparr>mode := smart, smart_settings :=
      \<lparr>cost_price = 5, selling_price = 10, profit_allocation_percent = 20\<rparr>\<rparr>) 100 ''bronze''
        = Num 10
   \<and> mode (getDefaultConfig\<lparr>mode := smart\<rparr>) = smart
   \<and> selling_price (smart_settings (getDefaultConfig\<lparr>mode := smart\<rparr>)) \<le> 0
   \<and> basePoints (getDefaultConfig\<lparr>mode := smart\<rparr>) 37 = Num 0"
proof -
  let ?ex = "getDefaultConfig\<lparr>mode := smart, smart_settings :=
      \<lparr>cost_price = 5, selling_price = 10, profit_allocation_percent = 20\<rparr>\<rparr>"
  have m: "mode ?ex = smart" by simp
  have s: "cost_price (smart_settings ?ex) = 5 \<and> selling_price (smart_settings ?ex) = 10
      \<and> profit_allocation_percent (smart_settings ?ex) = 20"
    by simp
  have t: "tierMultiplier ?ex ''bronze'' = JNumber 1"
    by (simp add: getDefaultConfig_def tierMultiplier_def get_property_def js_or_def)
  have x: "max_points_per_order ?ex \<ge> 10"
    by (simp add: getDefaultConfig_def)
  have m0: "mode (getDefaultConfig\<lparr>mode := smart\<rparr>) = smart" by simp
  have s0: "selling_price (smart_settings (getDefaultConfig\<lparr>mode := smart\<rparr>)) \<le> 0"
    by (simp add: getDefaultConfig_def)
  from C2_smart [OF m, of 37 "''bronze''"] s t x
  have "basePoints ?ex 37 = Num 3 \<and> calculatePointsPreview ?ex 100 ''bronze'' = Num 10"
    by (simp add: js_minus_def js_divide_def round64_defs)
  moreover from C2_smart [OF m0, of 37] s0
  have "basePoints (getDefaultConfig\<lparr>mode := smart\<rparr>) 37 = Num 0"
    by simp
  ultimately show ?thesis using m t x m0 s0 by simp
qed

subsection \<open>C3: manual mode and the second floor\<close>

text \<open>
  C3, as amended. In manual mode, if \<^verbatim>\<open>aed_value > 0\<close> then \<^verbatim>\<open>basePoints\<close> is the floor of
  \<open>(orderAmount / aed_value) * point_value\<close>, else it is 0; the tier multiplier is applied
  to the floored base points and the product is floored again:
  \<^verbatim>\<open>finalPoints = floor(basePoints * tierMultiplier)\<close>. Each division and multiplication is
  the binary64 one, its result rounded before the next operation. With \<^verbatim>\<open>aed_value\<close> 10,
  \<^verbatim>\<open>point_value\<close> 1, order amount 95, tier multiplier 1.25 and a cap of at least 11, the
  function returns exactly 11.
\<close>

theorem C3_manual:
  assumes "mode c = manual"
  shows "(aed_value (manual_settings c) > 0 \<longrightarrow>
            basePoints c oa =
              Math_floor (js_times (js_divide oa (aed_value (manual_settings c)))
                                   (Num (point_value (manual_settings c)))))
       \<and> (aed_value (manual_settings c) \<le> 0 \<longrightarrow> basePoints c oa = Num 0)
       \<and> finalPoints c oa t =
            Math_floor (js_times (basePoints c oa) (ToNumber (tierMultiplier c t)))
       \<and> (\<forall>b m. basePoints c oa = Num b \<and> tierMultiplier c t = JNumber m \<longrightarrow>
            finalPoints c oa t = Math_floor (round64 (b * m)))
       \<and> (aed_value (manual_settings c) = 10 \<and> point_value (manual_settings c) = 1
            \<and> tierMultiplier c t = JNumber (5/4) \<and> max_points_per_order c \<ge> 11
          \<longrightarrow> calculatePointsPreview c 95 t = Num 11)"
proof (intro conjI impI allI)
  assume "aed_value (manual_settings c) > 0"
  with assms show "basePoints c oa =
      Math_floor (js_times (js_divide oa (aed_value (manual_settings c)))
                           (Num (point_value (manual_settings c))))"
    by (rule basePoints_manual)
next
  assume "aed_value (manual_settings c) \<le> 0"
  with assms show "basePoints c oa = Num 0"
    by (rule basePoints_manual_unguarded)
next
  show "finalPoints c oa t =
      Math_floor (js_times (basePoints c oa) (ToNumber (tierMultiplier c t)))"
    by (simp add: finalPoints_def)
next
  fix b m
  assume "basePoints c oa = Num b \<and> tierMultiplier c t = JNumber m"
  then show "finalPoints c oa t = Math_floor (round64 (b * m))"
    by (simp add: finalPoints_def)
next
  assume ex: "aed_value (manual_settings c) = 10 \<and> point_value (manual_settings c) = 1
      \<and> tierMultiplier c t = JNumber (5/4) \<and> max_points_per_order c \<ge> 11"
  then have b: "basePoints c 95 = Num 9"
    using assms by (simp add: basePoints_manual js_divide_def round64_defs)
  then have "finalPoints c 95 t = Num 11"
    using ex by (simp add: finalPoints_def round64_defs)
  then show "calculatePointsPreview c 95 t = Num 11"
    using ex by (simp add: calculatePointsPreview_def)
qed

text \<open>
  C3 as stated, read with exact arithmetic, fails: with \<^verbatim>\<open>aed_value\<close> 10, \<^verbatim>\<open>point_value\<close>
  100 and the amount 23 the exact value is 230, but \<^verbatim>\<open>23 / 10\<close> rounds below 2.3 and the
  base points are 229. With \<^verbatim>\<open>aed_value\<close> 7, \<^verbatim>\<open>point_value\<close> 7, the amount 61 and the silver
  tier the code has 60 base and 75 final points, exact arithmetic 61 and 76.
\<close>

theorem C3_manual_counterexample:
  "mode (getDefaultConfig\<lparr>manual_settings := \<lparr>aed_value = 10, point_value = 100\<rparr>\<rparr>) = manual
   \<and> basePoints (getDefaultConfig\<lparr>manual_settings := \<lparr>aed_value = 10, point_value = 100\<rparr>\<rparr>) 23
        = Num 229
   \<and> \<lfloor>(23 / 10) * (100 :: real)\<rfloor> = 230
   \<and> basePoints (getDefaultConfig\<lparr>manual_settings := \<lparr>aed_value = 7, point_value = 7\<rparr>\<rparr>) 61
        = Num 60
   \<and> finalPoints (getDefaultConfig\<lparr>manual_settings := \<lparr>aed_value = 7, point_value = 7\<rparr>\<rparr>) 61
        ''silver'' = Num 75
   \<and> \<lfloor>(61 / 7) * (7 :: real)\<rfloor> = 61
   \<and> \<lfloor>real_of_int \<lfloor>(61 / 7) * (7 :: real)\<rfloor> * (5 / 4)\<rfloor> = 76"
  by (simp add: preview_defs getDefaultConfig_def round64_defs)

text \<open>
  The default configuration is the spec's manual example (silver is 1.25): 9 base points,
  11 final points. With \<^verbatim>\<open>aed_value\<close> 0 the guard fails and the base points are 0.
\<close>

theorem C3_manual_witness:
  "mode getDefaultConfig = manual
   \<and> aed_value (manual_settings getDefaultConfig) = 10
   \<and> point_value (manual_settings getDefaultConfig) = 1
   \<and> tierMultiplier getDefaultConfig ''silver'' = JNumber (5/4)
   \<and> max_points_per_order getDefaultConfig \<ge> 11
   \<and> basePoints getDefaultConfig 95 = Num 9
   \<and> finalPoints getDefaultConfig 95 ''silver'' = Num 11
   \<and> calculatePointsPreview getDefaultConfig 95 ''silver'' = Num 11
   \<and> mode (getDefaultConfig\<lparr>manual_settings := \<lparr>aed_value = 0, point_value = 1\<rparr>\<rparr>) = manual
   \<and> aed_value (manual_settings
        (getDefaultConfig\<lparr>manual_settings := \<lparr>aed_value = 0, point_value = 1\<rparr>\<rparr>)) \<le> 0
   \<and> basePoints (getDefaultConfig\<lparr>manual_settings := \<lparr>aed_value = 0, point_value = 1\<rparr>\<rparr>) 95
        = Num 0"
proof -
  have m: "mode getDefaultConfig = manual" by (simp add: getDefaultConfig_def)
  have s: "aed_value (manual_settings getDefaultConfig) = 10
      \<and> point_value (manual_settings getDefaultConfig) = 1"
    by (simp add: getDefaultConfig_def)
  have t: "tierMultiplier getDefaultConfig ''silver'' = JNumber (5/4)"
    by (simp add: getDefaultConfig_def tierMultiplier_def get_property_def js_or_def)
  have x: "max_points_per_order getDefaultConfig \<ge> 11"
    by (simp add: getDefaultConfig_def)
  have m0: "mode (getDefaultConfig\<lparr>manual_settings := \<lparr>aed_value = 0, point_value = 1\<rparr>\<rparr>) = manual"
    by (simp add: getDefaultConfig_def)
  have s0: "aed_value (manual_settings
        (getDefaultConfig\<lparr>manual_settings := \<lparr>aed_value = 0, point_value = 1\<rparr>\<rparr>)) \<le> 0"
    by simp
  from C3_manual [OF m, of 95 "''silver''"] s t x
  have "basePoints getDefaultConfig 95 = Num 9
      \<and> finalPoints getDefaultConfig 95 ''silver'' = Num 11
      \<and> calculatePointsPreview getDefaultConfig 95 ''silver'' = Num 11"
    by (simp add: js_divide_def round64_defs)
  moreover from C3_manual [OF m0, of 95] s0
  have "basePoints (getDefaultConfig\<lparr>manual_settings := \<lparr>aed_value = 0, point_value = 1\<rparr>\<rparr>) 95
        = Num 0"
    by simp
  ultimately show ?thesis using m s t x m0 s0 by simp
qed

subsection \<open>C4: negative order amounts\<close>

text \<open>
  The function does not replace a negative amount by 0; the amount goes into the formula
  as it is. Where the reward per unit of currency is not negative, the base points of a
  negative amount are at most 0 (possibly \<^verbatim>\<open>-Infinity\<close>), or \<^verbatim>\<open>NaN\<close> after an overflow.
\<close>

lemma basePoints_negative_amount:
  assumes "oa < 0"
      and "mode c = smart \<Longrightarrow> selling_price (smart_settings c) \<le> 0
             \<or> (cost_price (smart_settings c) \<le> selling_price (smart_settings c)
                 \<and> 0 \<le> profit_allocation_percent (smart_settings c))"
      and "mode c = manual \<Longrightarrow> aed_value (manual_settings c) \<le> 0
             \<or> 0 \<le> point_value (manual_settings c)"
  shows "basePoints c oa = NaN \<or> nonpos (basePoints c oa)"
proof (cases "mode c")
  case smart
  show ?thesis
  proof (cases "selling_price (smart_settings c) > 0")
    case True
    let ?s = "selling_price (smart_settings c)"
    let ?k = "cost_price (smart_settings c)"
    let ?p = "profit_allocation_percent (smart_settings c)"
    from True assms(2) [OF smart] have k: "?k \<le> ?s" and p: "0 \<le> ?p" by auto
    have "oa / ?s \<le> 0" using True assms(1) by (simp add: divide_nonpos_pos)
    then have q: "nonpos (js_divide oa ?s)"
      using True by (simp add: guarded_division round64_nonpos)
    have m: "nonneg (js_minus ?s ?k)" using k by (simp add: js_minus_def round64_nonneg)
    have r: "nonneg (js_divide ?p 100)" using p by (simp add: guarded_division round64_nonneg)
    let ?profit = "js_times (js_minus ?s ?k) (js_divide oa ?s)"
    have "?profit = NaN \<or> nonpos ?profit" by (rule js_times_nonneg_nonpos [OF m q])
    then have "js_times ?profit (js_divide ?p 100) = NaN
        \<or> nonpos (js_times ?profit (js_divide ?p 100))"
      using js_times_nonpos [OF _ r] by (auto simp: js_times_NaN_left)
    then have "Math_floor (js_times ?profit (js_divide ?p 100)) = NaN
        \<or> nonpos (Math_floor (js_times ?profit (js_divide ?p 100)))"
      by (auto simp: Math_floor_nonpos)
    then show ?thesis by (simp only: basePoints_smart [OF smart True])
  next
    case False
    then show ?thesis using smart by (simp add: basePoints_smart_unguarded)
  qed
next
  case manual
  show ?thesis
  proof (cases "aed_value (manual_settings c) > 0")
    case True
    let ?a = "aed_value (manual_settings c)"
    let ?v = "point_value (manual_settings c)"
    from True assms(3) [OF manual] have v: "nonneg (Num ?v)" by auto
    have "oa / ?a \<le> 0" using True assms(1) by (simp add: divide_nonpos_pos)
    then have q: "nonpos (js_divide oa ?a)"
      using True by (simp add: guarded_division round64_nonpos)
    have "js_times (js_divide oa ?a) (Num ?v) = NaN
        \<or> nonpos (js_times (js_divide oa ?a) (Num ?v))"
      by (rule js_times_nonpos [OF q v])
    then have "Math_floor (js_times (js_divide oa ?a) (Num ?v)) = NaN
        \<or> nonpos (Math_floor (js_times (js_divide oa ?a) (Num ?v)))"
      by (auto simp: Math_floor_nonpos)
    then show ?thesis by (simp only: basePoints_manual [OF manual True])
  next
    case False
    then show ?thesis using manual by (simp add: basePoints_manual_unguarded)
  qed
qed

lemma clamp_nonpos:
  assumes "nonpos f" and "0 \<le> cap"
  shows "Math_min (Math_max f (Num 0)) (Num cap) = Num 0"
  using assms by (cases f) (simp_all add: max_def min_def)

text \<open>
  C4, as amended. For every negative order amount the function returns 0, provided the
  cap is not negative, the tier multiplier in effect is a number that is not negative,
  the configured reward rate is not negative (in smart mode \<^verbatim>\<open>selling_price \<le> 0\<close>, or
  \<^verbatim>\<open>cost_price \<le> selling_price\<close> and \<^verbatim>\<open>profit_allocation_percent \<ge> 0\<close>; in manual mode
  \<^verbatim>\<open>aed_value \<le> 0\<close> or \<^verbatim>\<open>point_value \<ge> 0\<close>), and \<^verbatim>\<open>finalPoints\<close> is not \<^verbatim>\<open>NaN\<close>. The
  zero comes from the last clamp, \<^verbatim>\<open>Math.max(finalPoints, 0)\<close>, not from a clamp of the
  amount.
\<close>

theorem C4_negative_amount:
  assumes "oa < 0"
      and "max_points_per_order c \<ge> 0"
      and "tierMultiplier c t = JNumber m" and "m \<ge> 0"
      and "mode c = smart \<Longrightarrow> selling_price (smart_settings c) \<le> 0
             \<or> (cost_price (smart_settings c) \<le> selling_price (smart_settings c)
                 \<and> 0 \<le> profit_allocation_percent (smart_settings c))"
      and "mode c = manual \<Longrightarrow> aed_value (manual_settings c) \<le> 0
             \<or> 0 \<le> point_value (manual_settings c)"
      and "finalPoints c oa t \<noteq> NaN"
  shows "calculatePointsPreview c oa t = Num 0"
proof -
  have b: "basePoints c oa = NaN \<or> nonpos (basePoints c oa)"
    by (rule basePoints_negative_amount [OF assms(1) assms(5) assms(6)])
  have m: "nonneg (Num m)" using assms(4) by simp
  have "js_times (basePoints c oa) (Num m) = NaN
      \<or> nonpos (js_times (basePoints c oa) (Num m))"
    using b js_times_nonpos [OF _ m] by (auto simp: js_times_NaN_left)
  then have "finalPoints c oa t = NaN \<or> nonpos (finalPoints c oa t)"
    using assms(3) by (auto simp: finalPoints_def Math_floor_nonpos)
  with assms(7) have "nonpos (finalPoints c oa t)" by simp
  then show ?thesis
    using assms(2) by (simp add: calculatePointsPreview_def clamp_nonpos)
qed

text \<open>
  C4 as stated fails where the margin is negative: in smart mode with cost price 20,
  selling price 10 and allocation 100 percent, the amount -10 gives a profit of
  \<open>(10 - 20) * (-10 / 10) = 10\<close> and 10 points, while the amount 0 gives 0 points.
\<close>

theorem C4_negative_amount_counterexample:
  "(-10 :: real) < 0
   \<and> calculatePointsPreview
        (getDefaultConfig\<lparr>mode := smart, smart_settings :=
           \<lparr>cost_price = 20, selling_price = 10, profit_allocation_percent = 100\<rparr>\<rparr>)
        (-10) ''bronze'' = Num 10
   \<and> calculatePointsPreview
        (getDefaultConfig\<lparr>mode := smart, smart_settings :=
           \<lparr>cost_price = 20, selling_price = 10, profit_allocation_percent = 100\<rparr>\<rparr>)
        0 ''bronze'' = Num 0"
  by (simp add: preview_defs getDefaultConfig_def round64_defs)

text \<open>
  The amended C4 at the default configuration: -95 gives -10 base points, -13 final
  points, and the result 0.
\<close>

theorem C4_negative_amount_witness:
  "(-95 :: real) < 0
   \<and> max_points_per_order getDefaultConfig \<ge> 0
   \<and> tierMultiplier getDefaultConfig ''silver'' = JNumber (5/4)
   \<and> mode getDefaultConfig = manual
   \<and> 0 \<le> point_value (manual_settings getDefaultConfig)
   \<and> basePoints getDefaultConfig (-95) = Num (-10)
   \<and> finalPoints getDefaultConfig (-95) ''silver'' = Num (-13)
   \<and> calculatePointsPreview getDefaultConfig (-95) ''silver'' = Num 0"
proof -
  have a: "(-95 :: real) < 0" by simp
  have x: "max_points_per_order getDefaultConfig \<ge> 0" by (simp add: getDefaultConfig_def)
  have t: "tierMultiplier getDefaultConfig ''silver'' = JNumber (5/4)"
    by (simp add: getDefaultConfig_def tierMultiplier_def get_property_def js_or_def)
  have m: "mode getDefaultConfig = manual" by (simp add: getDefaultConfig_def)
  have v: "0 \<le> point_value (manual_settings getDefaultConfig)"
    by (simp add: getDefaultConfig_def)
  have b: "basePoints getDefaultConfig (-95) = Num (-10)"
    by (simp add: basePoints_def js_divide_def getDefaultConfig_def round64_defs)
  have f: "finalPoints getDefaultConfig (-95) ''silver'' = Num (-13)"
    by (simp add: finalPoints_def b t round64_defs)
  then have n: "finalPoints getDefaultConfig (-95) ''silver'' \<noteq> NaN" by simp
  have "calculatePointsPreview getDefaultConfig (-95) ''silver'' = Num 0"
    by (rule C4_negative_amount [OF a x t _ _ _ n]) (simp_all add: m v)
  with a x t m v b f show ?thesis by simp
qed

subsection \<open>C5: unknown tier names\<close>

text \<open>
  A name that is neither one of the four tiers nor inherited from \<^verbatim>\<open>Object.prototype\<close>
  reads as \<^verbatim>\<open>undefined\<close>, the multiplier falls back to 1.0, and the result is that of any
  tier whose multiplier in effect is 1.0.
\<close>

lemma unknown_tier_fallback:
  assumes "t \<notin> {''bronze'', ''silver'', ''gold'', ''platinum''}"
      and "t \<notin> set Object_prototype_properties"
      and "tierMultiplier c t' = JNumber 1"
  shows "calculatePointsPreview c oa t = calculatePointsPreview c oa t'"
  using tierMultiplier_unknown [OF assms(1,2), of c] assms(3)
  by (simp add: calculatePointsPreview_def finalPoints_def)

text \<open>
  C5 says that every \<^verbatim>\<open>customerTier\<close> other than bronze, silver, gold and platinum gives the
  result of a tier configured with multiplier 1.0. The code does not do so for the names
  inherited from \<^verbatim>\<open>Object.prototype\<close>: at the default configuration (bronze is 1.0) and
  the amount 100, the tier \<^verbatim>\<open>constructor\<close> reads the inherited constructor function, which
  is truthy, so \<^verbatim>\<open>|| 1.0\<close> does not apply; the result is \<^verbatim>\<open>NaN\<close>, and bronze gives 10.
\<close>

theorem C5_inherited_tier:
  "''constructor'' \<notin> {''bronze'', ''silver'', ''gold'', ''platinum''}
   \<and> bronze (tier_multipliers getDefaultConfig) = 1
   \<and> tierMultiplier getDefaultConfig ''constructor'' = JObject
   \<and> calculatePointsPreview getDefaultConfig 100 ''constructor'' = NaN
   \<and> calculatePointsPreview getDefaultConfig 100 ''bronze'' = Num 10"
  by (simp add: preview_defs getDefaultConfig_def round64_defs)

subsection \<open>C6: the order amount 0\<close>

text \<open>
  In manual mode the amount 0 gives 0 base points, and the result 0 for every tier name
  that is not inherited from \<^verbatim>\<open>Object.prototype\<close>, when the cap is not negative.
\<close>

lemma zero_amount_manual:
  assumes "mode c = manual"
  shows "basePoints c 0 = Num 0"
    and "t \<notin> set Object_prototype_properties \<Longrightarrow> max_points_per_order c \<ge> 0
           \<Longrightarrow> calculatePointsPreview c 0 t = Num 0"
proof -
  show b: "basePoints c 0 = Num 0"
    using assms by (simp add: basePoints_def js_divide_def round64_def Let_def)
  assume t: "t \<notin> set Object_prototype_properties" and x: "max_points_per_order c \<ge> 0"
  obtain m where m: "tierMultiplier c t = JNumber m"
    using tierMultiplier_own [OF t] by blast
  have "finalPoints c 0 t = Num 0"
    by (simp add: finalPoints_def b m round64_def)
  then show "calculatePointsPreview c 0 t = Num 0"
    using x by (simp add: calculatePointsPreview_def)
qed

text \<open>
  C6 says that with the amount 0 the base points are 0 and the result is 0 for every
  customer tier. At the default configuration the base points are 0; but for the tier
  name \<^verbatim>\<open>toString\<close> the multiplier is the inherited function, \<open>0 * NaN\<close> is \<^verbatim>\<open>NaN\<close>, and
  the function returns \<^verbatim>\<open>NaN\<close>.
\<close>

theorem C6_zero_amount_inherited_tier:
  "max_points_per_order getDefaultConfig \<ge> 1
   \<and> basePoints getDefaultConfig 0 = Num 0
   \<and> finalPoints getDefaultConfig 0 ''toString'' = NaN
   \<and> calculatePointsPreview getDefaultConfig 0 ''toString'' = NaN"
  by (simp add: preview_defs getDefaultConfig_def round64_defs)

subsection \<open>C7: the settings of the other mode\<close>

text \<open>
  C7. In smart mode the result does not depend on \<^verbatim>\<open>manual_settings\<close>: replacing them by
  any others leaves the result as it is. In manual mode the same holds of
  \<^verbatim>\<open>smart_settings\<close>.
\<close>

theorem C7_other_settings_ignored:
  "(mode c = smart \<longrightarrow>
      calculatePointsPreview (c\<lparr>manual_settings := ms\<rparr>) oa t = calculatePointsPreview c oa t)
   \<and> (mode c = manual \<longrightarrow>
      calculatePointsPreview (c\<lparr>smart_settings := ss\<rparr>) oa t = calculatePointsPreview c oa t)"
  by (simp add: calculatePointsPreview_def finalPoints_def tierMultiplier_def basePoints_def)

text \<open>
  Both halves at the default configuration, once switched to smart mode and once as it is.
\<close>

theorem C7_other_settings_ignored_witness:
  "mode (getDefaultConfig\<lparr>mode := smart\<rparr>) = smart
   \<and> calculatePointsPreview
        (getDefaultConfig\<lparr>mode := smart, manual_settings := \<lparr>aed_value = 1, point_value = 7\<rparr>\<rparr>)
        95 ''gold''
      = calculatePointsPreview (getDefaultConfig\<lparr>mode := smart\<rparr>) 95 ''gold''
   \<and> mode getDefaultConfig = manual
   \<and> calculatePointsPreview
        (getDefaultConfig\<lparr>smart_settings :=
           \<lparr>cost_price = 5, selling_price = 10, profit_allocation_percent = 20\<rparr>\<rparr>)
        95 ''gold''
      = calculatePointsPreview getDefaultConfig 95 ''gold''"
proof -
  have s: "mode (getDefaultConfig\<lparr>mode := smart\<rparr>) = smart" by simp
  have m: "mode getDefaultConfig = manual" by (simp add: getDefaultConfig_def)
  from C7_other_settings_ignored
         [of "getDefaultConfig\<lparr>mode := smart\<rparr>" "\<lparr>aed_value = 1, point_value = 7\<rparr>" 95 "''gold''"]
       C7_other_settings_ignored
         [of getDefaultConfig _ 95 "''gold''"
             "\<lparr>cost_price = 5, selling_price = 10, profit_allocation_percent = 20\<rparr>"]
       s m
  show ?thesis by simp
qed

subsection \<open>C8: no failure\<close>

text \<open>
  No operation of the function raises: arithmetic, \<^verbatim>\<open>Math.floor\<close>, \<^verbatim>\<open>Math.max\<close>,
  \<^verbatim>\<open>Math.min\<close> and the property read are total, as their models are. No division is a
  division by zero (\<open>guarded_division\<close>), and with the guard false the base points are 0
  (\<open>basePoints_smart_unguarded\<close>, \<open>basePoints_manual_unguarded\<close>). For a tier name
  inherited from \<^verbatim>\<open>Object.prototype\<close> the result is \<^verbatim>\<open>NaN\<close>.
\<close>

lemma preview_inherited:
  assumes "t \<in> set Object_prototype_properties"
  shows "calculatePointsPreview c oa t = NaN"
  using assms by (simp add: calculatePointsPreview_def finalPoints_inherited)

text \<open>
  C8 says, among the rest, that an unknown tier is normalized to the multiplier 1.0. For
  the unknown tier name \<^verbatim>\<open>valueOf\<close> the multiplier in effect is the inherited function, not
  1.0, and the result is \<^verbatim>\<open>NaN\<close> (no error is raised); the unknown name
  \<^verbatim>\<open>diamond\<close> is normalized and gives 5.
\<close>

theorem C8_unknown_tier_not_normalized:
  "''valueOf'' \<notin> {''bronze'', ''silver'', ''gold'', ''platinum''}
   \<and> tierMultiplier getDefaultConfig ''valueOf'' = JObject
   \<and> tierMultiplier getDefaultConfig ''valueOf'' \<noteq> JNumber 1
   \<and> calculatePointsPreview getDefaultConfig 50 ''valueOf'' = NaN
   \<and> calculatePointsPreview getDefaultConfig 50 ''diamond'' = Num 5"
  by (simp add: preview_defs getDefaultConfig_def round64_defs)

subsection \<open>C10: a multiplier of 0\<close>

text \<open>
  C10. When the multiplier configured for one of the four tiers is 0, the result for
  that tier is the result of the same call with that multiplier set to 1.0: 0 is falsy,
  and \<^verbatim>\<open>|| 1.0\<close> replaces it.
\<close>

theorem C10_zero_multiplier:
  "(bronze (tier_multipliers c) = 0 \<longrightarrow>
      calculatePointsPreview c oa ''bronze''
        = calculatePointsPreview (c\<lparr>tier_multipliers := (tier_multipliers c)\<lparr>bronze := 1\<rparr>\<rparr>) oa ''bronze'')
   \<and> (silver (tier_multipliers c) = 0 \<longrightarrow>
      calculatePointsPreview c oa ''silver''
        = calculatePointsPreview (c\<lparr>tier_multipliers := (tier_multipliers c)\<lparr>silver := 1\<rparr>\<rparr>) oa ''silver'')
   \<and> (gold (tier_multipliers c) = 0 \<longrightarrow>
      calculatePointsPreview c oa ''gold''
        = calculatePointsPreview (c\<lparr>tier_multipliers := (tier_multipliers c)\<lparr>gold := 1\<rparr>\<rparr>) oa ''gold'')
   \<and> (platinum (tier_multipliers c) = 0 \<longrightarrow>
      calculatePointsPreview c oa ''platinum''
        = calculatePointsPreview (c\<lparr>tier_multipliers := (tier_multipliers c)\<lparr>platinum := 1\<rparr>\<rparr>) oa ''platinum'')"
  by (simp add: calculatePointsPreview_def finalPoints_def tierMultiplier_def basePoints_def
        get_property_def js_or_def)

text \<open>
  With every multiplier 0, the gold tier earns the 9 points of a multiplier of 1.0.
\<close>

theorem C10_zero_multiplier_witness:
  "gold (tier_multipliers (getDefaultConfig\<lparr>tier_multipliers :=
       \<lparr>bronze = 0, silver = 0, gold = 0, platinum = 0\<rparr>\<rparr>)) = 0
   \<and> calculatePointsPreview
        (getDefaultConfig\<lparr>tier_multipliers := \<lparr>bronze = 0, silver = 0, gold = 0, platinum = 0\<rparr>\<rparr>)
        95 ''gold''
      = calculatePointsPreview
        (getDefaultConfig\<lparr>tier_multipliers := \<lparr>bronze = 0, silver = 0, gold = 1, platinum = 0\<rparr>\<rparr>)
        95 ''gold''
   \<and> calculatePointsPreview
        (getDefaultConfig\<lparr>tier_multipliers := \<lparr>bronze = 0, silver = 0, gold = 0, platinum = 0\<rparr>\<rparr>)
        95 ''gold'' = Num 9"
proof -
  let ?z = "getDefaultConfig\<lparr>tier_multipliers := \<lparr>bronze = 0, silver = 0, gold = 0, platinum = 0\<rparr>\<rparr>"
  have g: "gold (tier_multipliers ?z) = 0" by simp
  have v: "calculatePointsPreview ?z 95 ''gold'' = Num 9"
    by (simp add: preview_defs getDefaultConfig_def round64_defs)
  from C10_zero_multiplier [of ?z 95] g
  have "calculatePointsPreview ?z 95 ''gold''
      = calculatePointsPreview (?z\<lparr>tier_multipliers := (tier_multipliers ?z)\<lparr>gold := 1\<rparr>\<rparr>) 95 ''gold''"
    by blast
  then have "calculatePointsPreview ?z 95 ''gold''
      = calculatePointsPreview
        (getDefaultConfig\<lparr>tier_multipliers := \<lparr>bronze = 0, silver = 0, gold = 1, platinum = 0\<rparr>\<rparr>)
        95 ''gold''"
    by simp
  with g v show ?thesis by simp
qed

end
